theory Spec2Isabelle
  imports Main "HOL-Library.Sublist"
begin

section \<open>Messages and the state passed between the nodes\<close>

text \<open>
  The multi-agent workflow (\<^verbatim>\<open>multi-agent.ts\<close>, compiled to \<^verbatim>\<open>dist/multi-agent.js\<close>)
  threads an \<^verbatim>\<open>AgentState\<close> through a graph of three agent nodes and one tool node.
  A message is one of the message classes of the chat library; the class is kept as the
  field \<open>kind\<close>. The content of a message is a string or a list of content parts; the code
  tests \<^verbatim>\<open>typeof content === 'string'\<close>, so both shapes are kept.
  An absent or empty \<^verbatim>\<open>tool_calls\<close> array is the empty list: the code treats the two
  alike (\<^verbatim>\<open>!result?.tool_calls || result.tool_calls.length === 0\<close>).
\<close>

datatype kind = Human | AI | System | Tool

datatype content = Text string | Parts "string list"

record tool_call =
  tc_id :: string
  tc_name :: string
  tc_args :: string

record message =
  kind :: kind
  content :: content
  name :: "string option"
  tool_calls :: "tool_call list"
  tool_call_id :: "string option"

record AgentState =
  messages :: "message list"
  sender :: string

text \<open>What a node returns: the keys it writes. The tool node writes no \<open>sender\<close>.\<close>

record state_update =
  upd_messages :: "message list"
  upd_sender :: "string option"

datatype error =
  GenerationFailure
  | ToolNodeInput
  | UnknownDestination string
  | GraphRecursionError
  | MissingThreadId
  | TypeError

text \<open>
  The reducers of \<^verbatim>\<open>AgentState\<close>:
  \<^verbatim>\<open>messages: (x, y) => x.concat(y)\<close> and \<^verbatim>\<open>sender: (x, y) => y ?? x ?? "user"\<close>.
\<close>

definition messages_reducer :: "message list \<Rightarrow> message list \<Rightarrow> message list" where
  "messages_reducer x y = x @ y"

definition sender_reducer :: "string option \<Rightarrow> string option \<Rightarrow> string" where
  "sender_reducer x y =
     (case y of Some s \<Rightarrow> s
      | None \<Rightarrow> (case x of Some s \<Rightarrow> s | None \<Rightarrow> ''user''))"

definition apply_update :: "AgentState \<Rightarrow> state_update \<Rightarrow> AgentState" where
  "apply_update st u =
     \<lparr>messages = messages_reducer (messages st) (upd_messages u),
      sender = sender_reducer (Some (sender st)) (upd_sender u)\<rparr>"

definition HumanMessage :: "string \<Rightarrow> message" where
  "HumanMessage s =
     \<lparr>kind = Human, content = Text s, name = None, tool_calls = [], tool_call_id = None\<rparr>"

definition SystemMessage :: "string \<Rightarrow> message" where
  "SystemMessage s =
     \<lparr>kind = System, content = Text s, name = None, tool_calls = [], tool_call_id = None\<rparr>"

section \<open>Agents\<close>

text \<open>
  \<^verbatim>\<open>createAgent\<close> pipes a prompt template (one system entry, then the placeholder for the
  history) into the chat model bound to the tools and, when a response schema is given, to
  a strict JSON response format. The chat model is an external capability: it is a
  parameter, a function from the binding and the prompt to the reply, \<open>None\<close> when the
  call throws. A reply is an \<^verbatim>\<open>AIMessage\<close>: its content and its tool calls.
\<close>

record bind_config =
  bound_tools :: "string list"
  response_format :: "string option"

record ai_reply =
  reply_content :: content
  reply_tool_calls :: "tool_call list"

type_synonym chat_model = "bind_config \<Rightarrow> message list \<Rightarrow> ai_reply option"

record agent =
  systemPrompt :: string
  bindConfig :: bind_config

definition join_names :: "string list \<Rightarrow> string" where
  "join_names xs = concat (case xs of [] \<Rightarrow> [] | y # ys \<Rightarrow> y # map (\<lambda>z. '', '' @ z) ys)"

definition createAgent :: "string list \<Rightarrow> string \<Rightarrow> string option \<Rightarrow> agent" where
  "createAgent tools systemMessage responseSchema =
     \<lparr>systemPrompt =
        ''You are a helpful AI assistant, collaborating with other assistants.'' @
        '' Use the provided tools to progress towards answering the question.'' @
        '' If you are unable to fully answer, that's OK, another assistant with different tools '' @
        '' will help where you left off. Execute what you can to make progress.'' @
        '' If you or any of the other assistants have the final answer or deliverable,'' @
        '' prefix your response with FINAL ANSWER so the team knows to stop.'' @
        '' You have access to the following tools: '' @ join_names tools @ ''.\<newline>'' @
        systemMessage @
        (case responseSchema of
           None \<Rightarrow> []
         | Some _ \<Rightarrow> ''\<newline>\<newline>You MUST respond in JSON format following this schema. Think through your reasoning step-by-step in the reasoning section before taking action.''),
      bindConfig = \<lparr>bound_tools = tools, response_format = responseSchema\<rparr>\<rparr>"

text \<open>The prompt an agent sends: its system entry, then the whole history.\<close>

definition agent_prompt :: "agent \<Rightarrow> message list \<Rightarrow> message list" where
  "agent_prompt a history = SystemMessage (systemPrompt a) # history"

definition agent_invoke :: "chat_model \<Rightarrow> agent \<Rightarrow> AgentState \<Rightarrow> error + ai_reply" where
  "agent_invoke model a st =
     (case model (bindConfig a) (agent_prompt a (messages st)) of
        None \<Rightarrow> Inl GenerationFailure
      | Some r \<Rightarrow> Inr r)"

text \<open>
  \<^verbatim>\<open>runAgentNode\<close>: a reply without tool calls is rebuilt as a \<^verbatim>\<open>HumanMessage\<close> carrying
  the agent's name (\<^verbatim>\<open>new HumanMessage({ ...result, name: name })\<close>); a reply with tool
  calls is appended as it is. The console output of the function is not modelled.
\<close>

definition AIMessage :: "ai_reply \<Rightarrow> message" where
  "AIMessage r =
     \<lparr>kind = AI, content = reply_content r, name = None,
      tool_calls = reply_tool_calls r, tool_call_id = None\<rparr>"

definition runAgentNode :: "chat_model \<Rightarrow> AgentState \<Rightarrow> agent \<Rightarrow> string \<Rightarrow> error + state_update" where
  "runAgentNode model st a nm =
     (case agent_invoke model a st of
        Inl e \<Rightarrow> Inl e
      | Inr r \<Rightarrow>
          (let result = AIMessage r;
               result' = (if tool_calls result = []
                          then result\<lparr>kind := Human, name := Some nm\<rparr>
                          else result)
           in Inr \<lparr>upd_messages = [result'], upd_sender = Some nm\<rparr>))"

text \<open>The tools' names are those of the search wrappers of the library.\<close>

definition getNews :: string where
  "getNews = ''search''"

definition tavNews :: string where
  "tavNews = ''tavily_search_results_json''"

definition researcher_message :: string where
  "researcher_message = ''You should provide accurate information for the summarizer to use. Analyze the query, determine the best search strategy, and gather comprehensive information.''"

definition summarizer_message :: string where
  \<open>summarizer_message = ''You are a news summarizer. Your job is to:\<newline>\<newline>1. Analyze information gathered by the research agents\<newline>2. Identify key themes and patterns in the information\<newline>3. Create a comprehensive, well-structured summary with proper formatting\<newline>4. Highlight the most important developments and trends\<newline>5. Provide insights and context about the topic\<newline>6. Keep the response informative but conversational\<newline>7. Do NOT include "FINAL ANSWER" in your response\<newline>\<newline>Think through your synthesis approach in the reasoning section, then provide a structured summary with headline, overview, key points, insights, and conclusion.''\<close>

definition serpAgent :: agent where
  "serpAgent = createAgent [getNews] researcher_message (Some ''ResearcherResponseSchema'')"

definition tavAgent :: agent where
  "tavAgent = createAgent [tavNews] researcher_message (Some ''ResearcherResponseSchema'')"

definition summarizerAgent :: agent where
  "summarizerAgent = createAgent [] summarizer_message (Some ''SummarizerResponseSchema'')"

definition serpNode :: "chat_model \<Rightarrow> AgentState \<Rightarrow> error + state_update" where
  "serpNode model st = runAgentNode model st serpAgent ''SerpResearcher''"

definition tavNode :: "chat_model \<Rightarrow> AgentState \<Rightarrow> error + state_update" where
  "tavNode model st = runAgentNode model st tavAgent ''TavResearcher''"

definition summarizerNode :: "chat_model \<Rightarrow> AgentState \<Rightarrow> error + state_update" where
  "summarizerNode model st = runAgentNode model st summarizerAgent ''Summarizer''"

section \<open>The router\<close>

definition lastMessage :: "message list \<Rightarrow> message option" where
  "lastMessage msgs = (if msgs = [] then None else Some (last msgs))"

definition researchMessages :: "message list \<Rightarrow> message list" where
  "researchMessages msgs =
     filter (\<lambda>msg. name msg = Some ''SerpResearcher'' \<or> name msg = Some ''TavResearcher'') msgs"

definition router :: "AgentState \<Rightarrow> string" where
  "router state =
     (if (case lastMessage (messages state) of
            None \<Rightarrow> False
          | Some m \<Rightarrow> tool_calls m \<noteq> [])
      then ''call_tool''
      else if sender state = ''Summarizer'' then ''end''
      else if length (researchMessages (messages state)) \<ge> 2 then ''summarize''
      else ''continue'')"

section \<open>The tool node\<close>

text \<open>
  \<^verbatim>\<open>new ToolNode(tools)\<close> is the prebuilt node of the graph library. It runs every tool
  call of the last message, in order, and returns one tool message per call, carrying the
  call's identifier; a failing tool is reported in the content of its message, as
  \<^verbatim>\<open>Error: ${e.message}\n Please fix your mistakes.\<close> It returns the key \<open>messages\<close>
  only. The search capabilities are a parameter: \<open>Inr\<close> the output of the search,
  \<open>Inl\<close> the message of the error it throws.
\<close>

type_synonym tool_exec = "tool_call \<Rightarrow> string + string"

definition ToolMessage :: "tool_exec \<Rightarrow> tool_call \<Rightarrow> message" where
  "ToolMessage exec c =
     \<lparr>kind = Tool,
      content =
        Text (case exec c of
                Inr out \<Rightarrow> out
              | Inl msg \<Rightarrow> ''Error: '' @ msg @ ''\<newline> Please fix your mistakes.''),
      name = Some (tc_name c), tool_calls = [], tool_call_id = Some (tc_id c)\<rparr>"

definition toolNode :: "tool_exec \<Rightarrow> AgentState \<Rightarrow> error + state_update" where
  "toolNode exec st =
     (case lastMessage (messages st) of
        None \<Rightarrow> Inl ToolNodeInput
      | Some m \<Rightarrow>
          if kind m = AI
          then Inr \<lparr>upd_messages = map (ToolMessage exec) (tool_calls m), upd_sender = None\<rparr>
          else Inl ToolNodeInput)"

section \<open>The graph\<close>

text \<open>
  The workflow has four nodes; \<open>END\<close> is the terminal marker and the entry edge leads to
  \<open>SerpResearcher\<close>. Each node has one conditional edge: a path function on the state and
  a table from its results to the next node. A result missing from the table aborts the
  run.
\<close>

datatype node = SerpResearcher | TavResearcher | Summarizer | call_tool | END

definition node_name :: "node \<Rightarrow> string" where
  "node_name n =
     (case n of
        SerpResearcher \<Rightarrow> ''SerpResearcher''
      | TavResearcher \<Rightarrow> ''TavResearcher''
      | Summarizer \<Rightarrow> ''Summarizer''
      | call_tool \<Rightarrow> ''call_tool''
      | END \<Rightarrow> ''__end__'')"

definition run_node :: "chat_model \<Rightarrow> tool_exec \<Rightarrow> node \<Rightarrow> AgentState \<Rightarrow> error + state_update" where
  "run_node model exec n st =
     (case n of
        SerpResearcher \<Rightarrow> serpNode model st
      | TavResearcher \<Rightarrow> tavNode model st
      | Summarizer \<Rightarrow> summarizerNode model st
      | call_tool \<Rightarrow> toolNode exec st
      | END \<Rightarrow> Inr \<lparr>upd_messages = [], upd_sender = None\<rparr>)"

definition path :: "node \<Rightarrow> AgentState \<Rightarrow> string" where
  "path n = (case n of call_tool \<Rightarrow> sender | _ \<Rightarrow> router)"

definition ends :: "node \<Rightarrow> (string \<times> node) list" where
  "ends n =
     (case n of
        SerpResearcher \<Rightarrow>
          [(''continue'', TavResearcher), (''call_tool'', call_tool),
           (''summarize'', Summarizer), (''end'', END)]
      | TavResearcher \<Rightarrow>
          [(''continue'', SerpResearcher), (''call_tool'', call_tool),
           (''summarize'', Summarizer), (''end'', END)]
      | call_tool \<Rightarrow>
          [(''SerpResearcher'', SerpResearcher), (''TavResearcher'', TavResearcher)]
      | Summarizer \<Rightarrow> [(''end'', END)]
      | END \<Rightarrow> [])"

definition branch :: "node \<Rightarrow> AgentState \<Rightarrow> error + node" where
  "branch n st =
     (case map_of (ends n) (path n st) of
        None \<Rightarrow> Inl (UnknownDestination (path n st))
      | Some n' \<Rightarrow> Inr n')"

text \<open>
  One step: run the node, fold its update into the state, take the conditional edge.
  \<open>END\<close> is terminal; a step there leaves the configuration as it is.
\<close>

definition graph_step :: "chat_model \<Rightarrow> tool_exec \<Rightarrow> node \<Rightarrow> AgentState \<Rightarrow> error + node \<times> AgentState" where
  "graph_step model exec n st =
     (if n = END then Inr (END, st)
      else
        (case run_node model exec n st of
           Inl e \<Rightarrow> Inl e
         | Inr u \<Rightarrow>
             (let st' = apply_update st u
              in (case branch n st' of Inl e \<Rightarrow> Inl e | Inr n' \<Rightarrow> Inr (n', st')))))"

text \<open>The configuration after \<open>k\<close> steps, for statements about every step of a run.\<close>

fun steps :: "nat \<Rightarrow> chat_model \<Rightarrow> tool_exec \<Rightarrow> node \<times> AgentState \<Rightarrow> error + node \<times> AgentState" where
  "steps 0 model exec cfg = Inr cfg"
| "steps (Suc k) model exec cfg =
     (case steps k model exec cfg of
        Inl e \<Rightarrow> Inl e
      | Inr (n, st) \<Rightarrow> graph_step model exec n st)"

text \<open>
  The run of the compiled graph. The source passes no recursion limit of its own; the
  runtime's limit (25 unless the caller sets one) is the parameter \<open>limit\<close>. The runtime
  tests the limit before it looks for the next node, also when none is left, so finding
  that the run is over takes a round of its own: a run of \<open>s\<close> node steps returns
  under a limit greater than \<open>s\<close> and fails with the recursion error otherwise.
\<close>

fun run :: "nat \<Rightarrow> chat_model \<Rightarrow> tool_exec \<Rightarrow> node \<Rightarrow> AgentState \<Rightarrow> error + AgentState" where
  "run 0 model exec n st = Inl GraphRecursionError"
| "run (Suc limit) model exec n st =
     (if n = END then Inr st
      else
        (case graph_step model exec n st of
           Inl e \<Rightarrow> Inl e
         | Inr (n', st') \<Rightarrow> run limit model exec n' st'))"

text \<open>
  \<^verbatim>\<open>graph.invoke(input, config)\<close>: the input is folded by the reducers into the state
  saved for the thread (the default state for a new thread), and the run starts at the
  entry node.
\<close>

definition default_state :: AgentState where
  "default_state = \<lparr>messages = [], sender = ''user''\<rparr>"

definition graph_invoke :: "nat \<Rightarrow> chat_model \<Rightarrow> tool_exec \<Rightarrow> AgentState \<Rightarrow> state_update \<Rightarrow> error + AgentState" where
  "graph_invoke limit model exec saved input =
     run limit model exec SerpResearcher (apply_update saved input)"

definition news_input :: "string \<Rightarrow> state_update" where
  "news_input topic =
     \<lparr>upd_messages = [HumanMessage (''report current events about: '' @ topic)],
      upd_sender = Some ''user''\<rparr>"

section \<open>Parsed JSON and the report formatter\<close>

text \<open>
  What \<^verbatim>\<open>JSON.parse\<close> returns. A number is kept as its decimal rendering, the string
  that a template literal prints for it (so zero is \<open>''0''\<close>). A read of a property that
  is absent gives \<^verbatim>\<open>undefined\<close>, the value \<open>None\<close> of \<open>json option\<close>. \<^verbatim>\<open>JSON.parse\<close>
  itself is a built-in: the functions below take its outcome on the text at hand,
  \<open>None\<close> when it throws.
\<close>

datatype json =
  JNull
  | JBool bool
  | JNum string
  | JStr string
  | JArr "json list"
  | JObj "(string \<times> json) list"

text \<open>
  \<^verbatim>\<open>v.key\<close>, for the keys the code reads (none of them a built-in property of strings,
  arrays or objects): it throws on \<^verbatim>\<open>null\<close> and \<^verbatim>\<open>undefined\<close>, finds the member of an
  object, and is \<^verbatim>\<open>undefined\<close> on everything else.
\<close>

fun get_prop :: "json option \<Rightarrow> string \<Rightarrow> error + json option" where
  "get_prop None k = Inl TypeError"
| "get_prop (Some JNull) k = Inl TypeError"
| "get_prop (Some (JObj kvs)) k = Inr (map_of kvs k)"
| "get_prop (Some v) k = Inr None"

fun truthy :: "json option \<Rightarrow> bool" where
  "truthy None = False"
| "truthy (Some JNull) = False"
| "truthy (Some (JBool b)) = b"
| "truthy (Some (JNum s)) = (s \<noteq> ''0'')"
| "truthy (Some (JStr s)) = (s \<noteq> [])"
| "truthy (Some v) = True"

text \<open>
  The string a template literal \<^verbatim>\<open>${v}\<close> prints, or the \<^verbatim>\<open>TypeError\<close> it throws.
  An array prints its joined elements, \<^verbatim>\<open>null\<close> among them as the empty string. An
  object prints \<^verbatim>\<open>[object Object]\<close>, unless it has a member \<^verbatim>\<open>toString\<close> of its own:
  a parsed member is never a function, and the conversion then throws.
\<close>

fun join_with :: "string \<Rightarrow> string list \<Rightarrow> string" where
  "join_with sep [] = []"
| "join_with sep [x] = x"
| "join_with sep (x # y # ys) = x @ sep @ join_with sep (y # ys)"

fun collect :: "(error + 'a) list \<Rightarrow> error + 'a list" where
  "collect [] = Inr []"
| "collect (x # xs) =
     (case x of
        Inl e \<Rightarrow> Inl e
      | Inr v \<Rightarrow> (case collect xs of Inl e \<Rightarrow> Inl e | Inr vs \<Rightarrow> Inr (v # vs)))"

fun to_string :: "json \<Rightarrow> error + string" where
  "to_string JNull = Inr ''null''"
| "to_string (JBool b) = Inr (if b then ''true'' else ''false'')"
| "to_string (JNum s) = Inr s"
| "to_string (JStr s) = Inr s"
| "to_string (JArr xs) =
     (case collect (map (\<lambda>x. if x = JNull then Inr [] else to_string x) xs) of
        Inl e \<Rightarrow> Inl e
      | Inr parts \<Rightarrow> Inr (join_with '','' parts))"
| "to_string (JObj kvs) =
     (case map_of kvs ''toString'' of
        None \<Rightarrow> Inr ''[object Object]''
      | Some _ \<Rightarrow> Inl TypeError)"

definition template :: "json option \<Rightarrow> error + string" where
  "template v = (case v of None \<Rightarrow> Inr ''undefined'' | Some j \<Rightarrow> to_string j)"

text \<open>\<^verbatim>\<open>${v.key}\<close>: the read, then the conversion.\<close>

definition read_text :: "json option \<Rightarrow> string \<Rightarrow> error + string" where
  "read_text v k = (case get_prop v k of Inl e \<Rightarrow> Inl e | Inr x \<Rightarrow> template x)"

text \<open>\<^verbatim>\<open>for (const kp of v)\<close>: arrays and strings can be iterated, nothing else.\<close>

fun iterate :: "json option \<Rightarrow> error + json list" where
  "iterate (Some (JArr xs)) = Inr xs"
| "iterate (Some (JStr s)) = Inr (map (\<lambda>c. JStr [c]) s)"
| "iterate v = Inl TypeError"

fun format_key_points :: "json list \<Rightarrow> error + string" where
  "format_key_points [] = Inr []"
| "format_key_points (kp # kps) =
     (case read_text (Some kp) ''point'' of
        Inl e \<Rightarrow> Inl e
      | Inr point \<Rightarrow>
          (case read_text (Some kp) ''details'' of
             Inl e \<Rightarrow> Inl e
           | Inr details \<Rightarrow>
               (case format_key_points kps of
                  Inl e \<Rightarrow> Inl e
                | Inr rest \<Rightarrow>
                    Inr (''**'' @ point @ ''**\<newline>'' @ details @ ''\<newline>\<newline>'' @ rest))))"

definition formatSummaryFromJSON :: "json option \<Rightarrow> error + string" where
  "formatSummaryFromJSON summary =
     (case read_text summary ''headline'' of
        Inl e \<Rightarrow> Inl e
      | Inr headline \<Rightarrow>
     (case read_text summary ''overview'' of
        Inl e \<Rightarrow> Inl e
      | Inr overview \<Rightarrow>
     (case get_prop summary ''key_points'' of
        Inl e \<Rightarrow> Inl e
      | Inr key_points \<Rightarrow>
     (case iterate key_points of
        Inl e \<Rightarrow> Inl e
      | Inr kps \<Rightarrow>
     (case format_key_points kps of
        Inl e \<Rightarrow> Inl e
      | Inr points \<Rightarrow>
     (case read_text summary ''insights'' of
        Inl e \<Rightarrow> Inl e
      | Inr insights \<Rightarrow>
     (case read_text summary ''conclusion'' of
        Inl e \<Rightarrow> Inl e
      | Inr conclusion \<Rightarrow>
          Inr (''# '' @ headline @ ''\<newline>\<newline>'' @
               overview @ ''\<newline>\<newline>'' @
               ''## Key Points\<newline>\<newline>'' @
               points @
               ''## Insights\<newline>\<newline>'' @ insights @ ''\<newline>\<newline>'' @
               ''## Conclusion\<newline>\<newline>'' @ conclusion))))))))"

section \<open>\<^verbatim>\<open>generateNews\<close> and the connection handler\<close>

text \<open>
  \<^verbatim>\<open>generateNews\<close> wraps the run in a \<^verbatim>\<open>try\<close>: a run that throws gives
  \<^verbatim>\<open>{ output: undefined, formattedSummary: undefined }\<close>. After a run that returns, the
  content of the last message, when it is a string, is parsed in an inner \<^verbatim>\<open>try\<close>;
  \<open>parsed\<close> is the outcome of \<^verbatim>\<open>JSON.parse\<close> on it. Whatever is thrown inside (by the
  parser, by a read on \<^verbatim>\<open>null\<close>, by the formatter) is caught and leaves
  \<^verbatim>\<open>formattedSummary\<close> undefined.
\<close>

record news_result =
  "output" :: "AgentState option"
  formattedSummary :: "string option"

definition format_final :: "message option \<Rightarrow> json option \<Rightarrow> string option" where
  "format_final finalMessage parsed =
     (case finalMessage of
        None \<Rightarrow> None
      | Some m \<Rightarrow>
          (case content m of
             Parts _ \<Rightarrow> None
           | Text _ \<Rightarrow>
               (case parsed of
                  None \<Rightarrow> None
                | Some jsonResponse \<Rightarrow>
                    (case get_prop (Some jsonResponse) ''summary'' of
                       Inl _ \<Rightarrow> None
                     | Inr summary \<Rightarrow>
                         if truthy summary
                         then (case formatSummaryFromJSON summary of
                                 Inl _ \<Rightarrow> None
                               | Inr formatted \<Rightarrow> Some formatted)
                         else None))))"

definition generateNews :: "error + AgentState \<Rightarrow> json option \<Rightarrow> news_result" where
  "generateNews run_outcome parsed =
     (case run_outcome of
        Inl _ \<Rightarrow> \<lparr>output = None, formattedSummary = None\<rparr>
      | Inr out \<Rightarrow>
          \<lparr>output = Some out,
           formattedSummary = format_final (lastMessage (messages out)) parsed\<rparr>)"

text \<open>
  The reply of the handler:
  \<^verbatim>\<open>result?.formattedSummary || result?.output?.messages?.at(-1)?.content || 'No response available'\<close>.
  The empty string is falsy; an array of content parts is truthy. The compiled variant
  has no formatted summary: its chain is the tail
  \<^verbatim>\<open>output?.messages?.at(-1)?.content || 'No response available'\<close>, the function
  \<open>raw_content\<close>.
\<close>

definition no_response :: content where
  "no_response = Text ''No response available''"

definition oops_response :: content where
  "oops_response = Text ''Oops, something went wrong!''"

definition raw_content :: "news_result \<Rightarrow> content" where
  "raw_content result =
     (case output result of
        None \<Rightarrow> no_response
      | Some out \<Rightarrow>
          (case lastMessage (messages out) of
             None \<Rightarrow> no_response
           | Some m \<Rightarrow>
               (case content m of
                  Text s \<Rightarrow> if s \<noteq> [] then Text s else no_response
                | Parts ps \<Rightarrow> Parts ps)))"

definition news :: "news_result \<Rightarrow> content" where
  "news result =
     (case formattedSummary result of
        Some f \<Rightarrow> if f \<noteq> [] then Text f else raw_content result
      | None \<Rightarrow> raw_content result)"

text \<open>
  The handler of a socket message. \<open>request\<close> is the outcome of \<^verbatim>\<open>JSON.parse(raw)\<close>.
  A request that does not parse, or parses to \<^verbatim>\<open>null\<close>, lands in the outer \<^verbatim>\<open>catch\<close>; a
  request with another command is not answered. \<open>generate\<close> stands for the call
  \<^verbatim>\<open>generateNews(topic, session_id)\<close>.
\<close>

definition connection_handler :: "json option \<Rightarrow> (json option \<Rightarrow> json option \<Rightarrow> news_result) \<Rightarrow> content option" where
  "connection_handler request generate =
     (case request of
        None \<Rightarrow> Some oops_response
      | Some j \<Rightarrow>
          (case get_prop (Some j) ''command'' of
             Inl _ \<Rightarrow> Some oops_response
           | Inr command \<Rightarrow>
               if command = Some (JStr ''lookup news'')
               then (case get_prop (Some j) ''topic'' of
                       Inl _ \<Rightarrow> Some oops_response
                     | Inr topic \<Rightarrow>
                         (case get_prop (Some j) ''session_id'' of
                            Inl _ \<Rightarrow> Some oops_response
                          | Inr session_id \<Rightarrow> Some (news (generate topic session_id))))
               else None))"

text \<open>
  The server: the handler over the compiled graph. \<open>lookup_run\<close> is what
  \<^verbatim>\<open>generateNews\<close> does inside its \<^verbatim>\<open>try\<close> up to the end of the run: it prints the topic
  into the question (which throws when the topic cannot be printed) and invokes the graph
  on the thread named by \<^verbatim>\<open>session_id\<close>; the checkpointer refuses a thread identifier
  that is \<^verbatim>\<open>undefined\<close>. \<open>memory\<close> gives the state saved for a thread, \<open>parsed\<close> the
  outcome of parsing the final content.
\<close>

definition lookup_run :: "nat \<Rightarrow> chat_model \<Rightarrow> tool_exec \<Rightarrow> (json option \<Rightarrow> AgentState) \<Rightarrow> json option \<Rightarrow> json option \<Rightarrow> error + AgentState" where
  "lookup_run limit model exec memory topic session_id =
     (case template topic of
        Inl e \<Rightarrow> Inl e
      | Inr printed \<Rightarrow>
          (case session_id of
             None \<Rightarrow> Inl MissingThreadId
           | Some _ \<Rightarrow>
               graph_invoke limit model exec (memory session_id) (news_input printed)))"

definition serve :: "nat \<Rightarrow> chat_model \<Rightarrow> tool_exec \<Rightarrow> (json option \<Rightarrow> AgentState) \<Rightarrow> json option \<Rightarrow> json option \<Rightarrow> content option" where
  "serve limit model exec memory request parsed =
     connection_handler request
       (\<lambda>topic session_id.
          generateNews (lookup_run limit model exec memory topic session_id) parsed)"

section \<open>The single-agent variants: \<^verbatim>\<open>callModel\<close>\<close>

text \<open>
  The two single-agent programs keep only a message list as state. Their model node
  builds the outgoing messages with
  \<^verbatim>\<open>state.messages[0]?.constructor.name === 'SystemMessage' ? state.messages : [systemPrompt, ...state.messages]\<close>:
  the test looks at the first message only.
\<close>

definition outgoing_messages :: "message \<Rightarrow> message list \<Rightarrow> message list" where
  "outgoing_messages prompt msgs =
     (case msgs of
        [] \<Rightarrow> prompt # msgs
      | m # _ \<Rightarrow> if kind m = System then msgs else prompt # msgs)"

definition analyst_prompt :: message where
  "analyst_prompt = SystemMessage ''You are a helpful news analyst assistant. When a user asks for news about a topic:\<newline>\<newline>1. Use the search tool to find current news articles relavent 2025\<newline>2. Analyze and summarize the key findings\<newline>3. Provide your own insights and context about the topic\<newline>4. Highlight the most important or interesting developments\<newline>5. Keep your response informative but conversational\<newline>\<newline>Always provide a thoughtful summary rather than just raw search results.''"

definition callModel :: "chat_model \<Rightarrow> message list \<Rightarrow> error + message list" where
  "callModel model msgs =
     (case model \<lparr>bound_tools = [getNews], response_format = None\<rparr>
             (outgoing_messages analyst_prompt msgs) of
        None \<Rightarrow> Inl GenerationFailure
      | Some response \<Rightarrow> Inr [AIMessage response])"

definition json_analyst_prompt :: message where
  "json_analyst_prompt = SystemMessage ''You are a helpful news analyst assistant. When a user asks for news about a topic:\<newline>\<newline>1. First, analyze what information you need in the reasoning section\<newline>2. Use the search tool to find current news articles relevant to 2025\<newline>3. After gathering information, provide a structured analysis with headline, summary, key developments, context, and outlook\<newline>4. Think step-by-step through your reasoning before providing the final analysis\<newline>5. Keep your response informative but conversational\<newline>\<newline>You MUST respond in JSON format following the provided schema. Structure your thinking in the reasoning section, then provide comprehensive analysis.''"

text \<open>The variant with a JSON mode: after tool results the model is bound to the schema.\<close>

definition callModel_json :: "chat_model \<Rightarrow> message list \<Rightarrow> error + message list" where
  "callModel_json model msgs =
     (let hasToolResults = (case lastMessage msgs of None \<Rightarrow> False | Some m \<Rightarrow> kind m = Tool);
          outgoing = outgoing_messages json_analyst_prompt msgs;
          bound = (if hasToolResults
                   then \<lparr>bound_tools = [], response_format = Some ''news_analysis''\<rparr>
                   else \<lparr>bound_tools = [getNews], response_format = None\<rparr>)
      in (case model bound outgoing of
            None \<Rightarrow> Inl GenerationFailure
          | Some response \<Rightarrow> Inr [AIMessage response]))"

text \<open>
  The graph of the single-agent programs: the entry edge leads to \<^verbatim>\<open>agent\<close>, the edge
  from \<^verbatim>\<open>tools\<close> leads back to it, and \<^verbatim>\<open>shouldContinue\<close> decides after \<^verbatim>\<open>agent\<close>.
  The state is the message list, appended to by every node; the tool node is the same
  prebuilt node and reads the messages only.
\<close>

definition shouldContinue :: "message list \<Rightarrow> error + string" where
  "shouldContinue msgs =
     (case lastMessage msgs of
        None \<Rightarrow> Inl TypeError
      | Some m \<Rightarrow> Inr (if tool_calls m \<noteq> [] then ''tools'' else ''__end__''))"

datatype model_node = AgentNode | ToolsNode | EndNode

definition model_step ::
  "(chat_model \<Rightarrow> message list \<Rightarrow> error + message list) \<Rightarrow> chat_model \<Rightarrow> tool_exec \<Rightarrow>
   model_node \<Rightarrow> message list \<Rightarrow> error + model_node \<times> message list" where
  "model_step call model exec n msgs =
     (case n of
        AgentNode \<Rightarrow>
          (case call model msgs of
             Inl e \<Rightarrow> Inl e
           | Inr out \<Rightarrow>
               (case shouldContinue (msgs @ out) of
                  Inl e \<Rightarrow> Inl e
                | Inr dest \<Rightarrow> Inr (if dest = ''tools'' then ToolsNode else EndNode, msgs @ out)))
      | ToolsNode \<Rightarrow>
          (case toolNode exec \<lparr>messages = msgs, sender = ''user''\<rparr> of
             Inl e \<Rightarrow> Inl e
           | Inr u \<Rightarrow> Inr (AgentNode, msgs @ upd_messages u))
      | EndNode \<Rightarrow> Inr (EndNode, msgs))"

section \<open>Threads\<close>

text \<open>
  What a node can be invoked on. A thread starts empty; the caller asks a question, which
  appends the question to whatever the thread holds and starts a run at the entry node,
  and the runtime executes steps. A step that fails leaves the thread as it was saved
  before it. \<open>thread\<close> is the configuration of the multi-agent graph after a list of
  such events, \<open>model_thread\<close> that of a single-agent graph.
\<close>

datatype event = Ask string | Step

definition thread_event :: "chat_model \<Rightarrow> tool_exec \<Rightarrow> node \<times> AgentState \<Rightarrow> event \<Rightarrow> node \<times> AgentState" where
  "thread_event model exec cfg ev =
     (case ev of
        Ask topic \<Rightarrow> (SerpResearcher, apply_update (snd cfg) (news_input topic))
      | Step \<Rightarrow>
          (case graph_step model exec (fst cfg) (snd cfg) of
             Inl e \<Rightarrow> cfg
           | Inr cfg' \<Rightarrow> cfg'))"

definition thread :: "chat_model \<Rightarrow> tool_exec \<Rightarrow> event list \<Rightarrow> node \<times> AgentState" where
  "thread model exec evs = foldl (thread_event model exec) (END, default_state) evs"

definition model_thread_event ::
  "(chat_model \<Rightarrow> message list \<Rightarrow> error + message list) \<Rightarrow> chat_model \<Rightarrow> tool_exec \<Rightarrow>
   model_node \<times> message list \<Rightarrow> event \<Rightarrow> model_node \<times> message list" where
  "model_thread_event call model exec cfg ev =
     (case ev of
        Ask topic \<Rightarrow>
          (AgentNode, snd cfg @ [HumanMessage (''report current events about: '' @ topic)])
      | Step \<Rightarrow>
          (case model_step call model exec (fst cfg) (snd cfg) of
             Inl e \<Rightarrow> cfg
           | Inr cfg' \<Rightarrow> cfg'))"

definition model_thread ::
  "(chat_model \<Rightarrow> message list \<Rightarrow> error + message list) \<Rightarrow> chat_model \<Rightarrow> tool_exec \<Rightarrow>
   event list \<Rightarrow> model_node \<times> message list" where
  "model_thread call model exec evs = foldl (model_thread_event call model exec) (EndNode, []) evs"

definition has_system :: "message list \<Rightarrow> bool" where
  "has_system msgs = list_ex (\<lambda>m. kind m = System) msgs"

text \<open>The number of requests for tools that a history holds.\<close>

definition tool_rounds :: "message list \<Rightarrow> nat" where
  "tool_rounds msgs = length (filter (\<lambda>m. kind m = AI \<and> tool_calls m \<noteq> []) msgs)"

section \<open>Sample capabilities and states\<close>

text \<open>
  Concrete chat models, tools and states on which the statements below are evaluated:
  a model that answers in plain text, one that asks for a tool at every turn, one that
  fails, one that asks for a tool until it sees the tool's result, and one that asks for
  a tool, when it is bound to any, while the history holds fewer than \<open>t\<close> requests.
\<close>

definition search_call :: tool_call where
  "search_call = \<lparr>tc_id = ''call_1'', tc_name = ''search'', tc_args = ''quantum computing''\<rparr>"

definition plain_model :: chat_model where
  "plain_model cfg prompt = Some \<lparr>reply_content = Text ''findings'', reply_tool_calls = []\<rparr>"

definition looping_model :: chat_model where
  "looping_model cfg prompt = Some \<lparr>reply_content = Text [], reply_tool_calls = [search_call]\<rparr>"

definition failing_model :: chat_model where
  "failing_model cfg prompt = None"

definition tool_once_model :: chat_model where
  "tool_once_model cfg prompt =
     (if prompt \<noteq> [] \<and> kind (last prompt) = Human \<and> name (last prompt) = None
      then Some \<lparr>reply_content = Text [], reply_tool_calls = [search_call]\<rparr>
      else Some \<lparr>reply_content = Text ''findings'', reply_tool_calls = []\<rparr>)"

definition eager_model :: "nat \<Rightarrow> chat_model" where
  "eager_model t cfg prompt =
     (if bound_tools cfg \<noteq> [] \<and> tool_rounds prompt < t
      then Some \<lparr>reply_content = Text [], reply_tool_calls = [search_call]\<rparr>
      else Some \<lparr>reply_content = Text ''findings'', reply_tool_calls = []\<rparr>)"

definition sample_exec :: tool_exec where
  "sample_exec c = Inr ''search results''"

definition question :: AgentState where
  "question = apply_update default_state (news_input ''quantum computing'')"

definition named_message :: "string \<Rightarrow> string \<Rightarrow> message" where
  "named_message nm s = (HumanMessage s)\<lparr>name := Some nm\<rparr>"

text \<open>
  A thread whose first run stopped after the first researcher's answer (the second
  researcher's model call failed), and the same thread after the next question and the
  first researcher's answer to it.
\<close>

definition interrupted_thread :: AgentState where
  "interrupted_thread =
     \<lparr>messages =
        [HumanMessage ''report current events about: quantum computing'',
         named_message ''SerpResearcher'' ''findings''],
      sender = ''SerpResearcher''\<rparr>"

definition one_sided_state :: AgentState where
  "one_sided_state =
     \<lparr>messages =
        [HumanMessage ''report current events about: quantum computing'',
         named_message ''SerpResearcher'' ''findings'',
         HumanMessage ''report current events about: fusion'',
         named_message ''SerpResearcher'' ''findings''],
      sender = ''SerpResearcher''\<rparr>"

definition contributions :: "string \<Rightarrow> message list \<Rightarrow> nat" where
  "contributions nm msgs = length (filter (\<lambda>m. name m = Some nm) msgs)"

definition sample_request :: json where
  "sample_request =
     JObj [(''command'', JStr ''lookup news''), (''topic'', JStr ''quantum computing''),
           (''session_id'', JStr ''s1'')]"

definition fresh_memory :: "json option \<Rightarrow> AgentState" where
  "fresh_memory session_id = default_state"

definition final_state :: "content \<Rightarrow> AgentState" where
  "final_state c =
     \<lparr>messages =
        [HumanMessage ''report current events about: quantum computing'',
         \<lparr>kind = Human, content = c, name = Some ''Summarizer'', tool_calls = [],
          tool_call_id = None\<rparr>],
      sender = ''Summarizer''\<rparr>"

definition is_agent :: "node \<Rightarrow> bool" where
  "is_agent n = (n = SerpResearcher \<or> n = TavResearcher \<or> n = Summarizer)"

definition node_agent :: "node \<Rightarrow> agent option" where
  "node_agent n =
     (case n of
        SerpResearcher \<Rightarrow> Some serpAgent
      | TavResearcher \<Rightarrow> Some tavAgent
      | Summarizer \<Rightarrow> Some summarizerAgent
      | _ \<Rightarrow> None)"

section \<open>Basic facts about the state and the nodes\<close>

lemmas model_defs = plain_model_def looping_model_def failing_model_def tool_once_model_def
  sample_exec_def search_call_def

lemmas node_defs = serpNode_def tavNode_def summarizerNode_def runAgentNode_def agent_invoke_def
  agent_prompt_def AIMessage_def toolNode_def ToolMessage_def run_node_def

lemmas state_defs = apply_update_def messages_reducer_def sender_reducer_def lastMessage_def
  default_state_def news_input_def HumanMessage_def SystemMessage_def question_def
  named_message_def

lemmas edge_defs = graph_step_def branch_def path_def ends_def router_def

lemma lastMessage_snoc: "lastMessage (xs @ [m]) = Some m"
  by (simp add: lastMessage_def)

lemma messages_apply_update: "messages (apply_update st u) = messages st @ upd_messages u"
  by (simp add: apply_update_def messages_reducer_def)

lemma sender_apply_update:
  "sender (apply_update st u) = (case upd_sender u of None \<Rightarrow> sender st | Some s \<Rightarrow> s)"
  by (simp add: apply_update_def sender_reducer_def split: option.splits)

text \<open>An agent node writes its own name as sender and appends exactly one message.\<close>

lemma agent_node_update:
  assumes "is_agent n" and "run_node model exec n st = Inr u"
  shows "upd_sender u = Some (node_name n) \<and>
         (\<exists>m. upd_messages u = [m] \<and>
            (tool_calls m = [] \<longrightarrow> kind m = Human \<and> name m = Some (node_name n)) \<and>
            (tool_calls m \<noteq> [] \<longrightarrow> kind m = AI \<and> name m = None))"
  using assms
  by (auto simp: is_agent_def run_node_def serpNode_def tavNode_def summarizerNode_def
      runAgentNode_def AIMessage_def node_name_def Let_def split: sum.splits)

lemma router_call_tool:
  "router st = ''call_tool'' \<longleftrightarrow> (\<exists>m. lastMessage (messages st) = Some m \<and> tool_calls m \<noteq> [])"
  by (auto simp: router_def split: option.splits)

lemma branch_call_tool:
  "branch n st = Inr call_tool \<longleftrightarrow>
     (n = SerpResearcher \<or> n = TavResearcher) \<and> router st = ''call_tool''"
  by (cases n) (auto simp: branch_def path_def ends_def split: option.splits if_splits)

section \<open>Tool results return to the agent that asked\<close>

text \<open>Only a researcher's step leads to the tool node, and it leaves its name as sender.\<close>

lemma step_to_call_tool:
  assumes "graph_step model exec n st = Inr (call_tool, st1)"
  shows "(n = SerpResearcher \<or> n = TavResearcher) \<and> sender st1 = node_name n \<and>
         (\<exists>m. lastMessage (messages st1) = Some m \<and> kind m = AI \<and> tool_calls m \<noteq> [])"
proof -
  from assms obtain u where u: "run_node model exec n st = Inr u"
    and st1: "st1 = apply_update st u" and b: "branch n st1 = Inr call_tool"
    by (auto simp: graph_step_def Let_def split: if_splits sum.splits)
  from b have n: "n = SerpResearcher \<or> n = TavResearcher" and r: "router st1 = ''call_tool''"
    by (simp_all add: branch_call_tool)
  from n have ag: "is_agent n" by (auto simp: is_agent_def)
  from agent_node_update [OF ag u] obtain m where s: "upd_sender u = Some (node_name n)"
    and m: "upd_messages u = [m]"
    and k: "tool_calls m \<noteq> [] \<longrightarrow> kind m = AI \<and> name m = None"
    by blast
  have l: "lastMessage (messages st1) = Some m"
    by (simp add: st1 messages_apply_update m lastMessage_snoc)
  from r l have "tool_calls m \<noteq> []" by (simp add: router_call_tool)
  with k l n s show ?thesis by (simp add: st1 sender_apply_update)
qed

lemma tool_step_returns:
  assumes "lastMessage (messages st1) = Some m" and "kind m = AI"
    and "sender st1 = node_name n" and "n = SerpResearcher \<or> n = TavResearcher"
  shows "\<exists>st2. graph_step model exec call_tool st1 = Inr (n, st2) \<and> sender st2 = sender st1"
  using assms
  by (auto simp: graph_step_def run_node_def toolNode_def Let_def sender_apply_update
      branch_def path_def ends_def node_name_def)

text \<open>
  C2. Whenever a run from the entry node stands at the tool node, the step of the tool
  node succeeds and leads to the agent node named by the sender; that node is the
  researcher that ran in the step before (the one whose reply carried the tool calls), and
  the tool node leaves the sender as it was.
\<close>

theorem tool_results_return_to_sender:
  assumes "steps k model exec (SerpResearcher, st0) = Inr (call_tool, st1)"
  shows "\<exists>n st2. graph_step model exec call_tool st1 = Inr (n, st2) \<and>
           node_name n = sender st1 \<and> sender st2 = sender st1 \<and>
           (n = SerpResearcher \<or> n = TavResearcher) \<and>
           (\<exists>j st. k = Suc j \<and> steps j model exec (SerpResearcher, st0) = Inr (n, st))"
proof (cases k)
  case 0
  with assms show ?thesis by simp
next
  case (Suc j)
  with assms obtain n st where p: "steps j model exec (SerpResearcher, st0) = Inr (n, st)"
    and g: "graph_step model exec n st = Inr (call_tool, st1)"
    by (auto split: sum.splits)
  from step_to_call_tool [OF g] obtain m where n: "n = SerpResearcher \<or> n = TavResearcher"
    and s: "sender st1 = node_name n" and l: "lastMessage (messages st1) = Some m"
    and a: "kind m = AI"
    by blast
  from tool_step_returns [OF l a s n] obtain st2
    where "graph_step model exec call_tool st1 = Inr (n, st2)" and "sender st2 = sender st1"
    by blast
  with n s p Suc show ?thesis by auto
qed

theorem tool_results_return_to_sender_witness:
  "steps 1 tool_once_model sample_exec (SerpResearcher, question) =
     Inr (call_tool, apply_update question
        \<lparr>upd_messages = [AIMessage \<lparr>reply_content = Text [], reply_tool_calls = [search_call]\<rparr>],
         upd_sender = Some ''SerpResearcher''\<rparr>) \<and>
   (\<exists>st2. graph_step tool_once_model sample_exec call_tool (apply_update question
        \<lparr>upd_messages = [AIMessage \<lparr>reply_content = Text [], reply_tool_calls = [search_call]\<rparr>],
         upd_sender = Some ''SerpResearcher''\<rparr>) = Inr (SerpResearcher, st2) \<and>
      sender st2 = ''SerpResearcher'')"
proof -
  let ?st1 = "apply_update question
        \<lparr>upd_messages = [AIMessage \<lparr>reply_content = Text [], reply_tool_calls = [search_call]\<rparr>],
         upd_sender = Some ''SerpResearcher''\<rparr>"
  have h: "steps 1 tool_once_model sample_exec (SerpResearcher, question) = Inr (call_tool, ?st1)"
    by (simp add: model_defs node_defs state_defs edge_defs Let_def)
  have s: "sender ?st1 = ''SerpResearcher''" by (simp add: state_defs)
  from tool_results_return_to_sender [OF h] s h show ?thesis
    by (auto simp: node_name_def)
qed

section \<open>The summarizer's only edge\<close>

text \<open>
  C9. In the state that the summarizer's step produces, when its last message carries no
  pending tool calls, the router returns \<open>''end''\<close>; the only edge mapped from the
  summarizer is then taken and the step ends the run.
\<close>

theorem summarizer_routes_to_end:
  assumes "summarizerNode model st = Inr u"
    and "lastMessage (messages (apply_update st u)) = Some m"
    and "tool_calls m = []"
  shows "router (apply_update st u) = ''end'' \<and>
         branch Summarizer (apply_update st u) = Inr END \<and>
         graph_step model exec Summarizer st = Inr (END, apply_update st u)"
proof -
  from assms(1) have s: "upd_sender u = Some ''Summarizer''"
    unfolding summarizerNode_def runAgentNode_def by (auto simp: Let_def split: sum.splits)
  have snd: "sender (apply_update st u) = ''Summarizer''"
    by (simp add: sender_apply_update s)
  have r: "router (apply_update st u) = ''end''"
    using assms(2,3) snd by (simp add: router_def)
  have b: "branch Summarizer (apply_update st u) = Inr END"
    by (simp add: branch_def path_def ends_def r)
  show ?thesis using r b assms(1) by (simp add: graph_step_def run_node_def Let_def)
qed

theorem summarizer_routes_to_end_witness:
  "router (apply_update question
      \<lparr>upd_messages = [named_message ''Summarizer'' ''findings''],
       upd_sender = Some ''Summarizer''\<rparr>) = ''end'' \<and>
   graph_step plain_model sample_exec Summarizer question =
     Inr (END, apply_update question
        \<lparr>upd_messages = [named_message ''Summarizer'' ''findings''],
         upd_sender = Some ''Summarizer''\<rparr>)"
proof -
  let ?u = "\<lparr>upd_messages = [named_message ''Summarizer'' ''findings''],
            upd_sender = Some ''Summarizer''\<rparr>"
  have h1: "summarizerNode plain_model question = Inr ?u"
    by (simp add: summarizerNode_def runAgentNode_def agent_invoke_def plain_model_def
        AIMessage_def named_message_def HumanMessage_def Let_def)
  have h2: "lastMessage (messages (apply_update question ?u)) =
              Some (named_message ''Summarizer'' ''findings'')"
    by (simp add: messages_apply_update lastMessage_snoc)
  have h3: "tool_calls (named_message ''Summarizer'' ''findings'') = []"
    by (simp add: named_message_def HumanMessage_def)
  from summarizer_routes_to_end [OF h1 h2 h3, of sample_exec] show ?thesis by simp
qed

section \<open>The message list only grows\<close>

lemma graph_step_prefix:
  assumes "graph_step model exec n st = Inr (n', st')"
  shows "prefix (messages st) (messages st')"
  using assms
  by (auto simp: graph_step_def Let_def messages_apply_update split: if_splits sum.splits)

text \<open>
  C3. The reducer of \<open>messages\<close> is concatenation, and over any number of node
  executions, from any node and state, the message list the run started with is a prefix
  of the later one: it is never shorter, and no earlier entry is changed, dropped or moved.
\<close>

theorem messages_append_only:
  assumes "steps k model exec (n, st) = Inr (n', st')"
  shows "prefix (messages st) (messages st') \<and>
         length (messages st) \<le> length (messages st') \<and>
         messages (apply_update st u) = messages st @ upd_messages u"
proof -
  have "prefix (messages st) (messages st')"
    using assms
  proof (induction k arbitrary: n' st')
    case 0
    then show ?case by simp
  next
    case (Suc k)
    then obtain n1 st1 where a: "steps k model exec (n, st) = Inr (n1, st1)"
      and b: "graph_step model exec n1 st1 = Inr (n', st')"
      by (auto split: sum.splits)
    from Suc.IH [OF a] graph_step_prefix [OF b] show ?case
      by (rule prefix_order.trans)
  qed
  then show ?thesis by (simp add: prefix_length_le messages_apply_update)
qed

theorem messages_append_only_witness:
  "steps 2 tool_once_model sample_exec (SerpResearcher, question) =
     Inr (SerpResearcher,
       \<lparr>messages = messages question @
          [AIMessage \<lparr>reply_content = Text [], reply_tool_calls = [search_call]\<rparr>,
           ToolMessage sample_exec search_call],
        sender = ''SerpResearcher''\<rparr>) \<and>
   prefix (messages question) (messages question @
          [AIMessage \<lparr>reply_content = Text [], reply_tool_calls = [search_call]\<rparr>,
           ToolMessage sample_exec search_call])"
proof -
  let ?st = "\<lparr>messages = messages question @
          [AIMessage \<lparr>reply_content = Text [], reply_tool_calls = [search_call]\<rparr>,
           ToolMessage sample_exec search_call],
        sender = ''SerpResearcher''\<rparr>"
  have h: "steps 2 tool_once_model sample_exec (SerpResearcher, question) =
             Inr (SerpResearcher, ?st)"
    by (simp add: eval_nat_numeral model_defs node_defs state_defs edge_defs Let_def)
  from messages_append_only [OF h] h show ?thesis by simp
qed

section \<open>What an agent node appends\<close>

text \<open>
  C4, as stated, fails: the reply of the model is an assistant message, and the message
  the node appends for it is a human message.
\<close>

theorem agent_reply_without_tools_counterexample:
  "runAgentNode plain_model question serpAgent ''SerpResearcher'' =
     Inr \<lparr>upd_messages =
            [(AIMessage \<lparr>reply_content = Text ''findings'', reply_tool_calls = []\<rparr>)
               \<lparr>kind := Human, name := Some ''SerpResearcher''\<rparr>],
          upd_sender = Some ''SerpResearcher''\<rparr> \<and>
   kind ((AIMessage \<lparr>reply_content = Text ''findings'', reply_tool_calls = []\<rparr>)
           \<lparr>kind := Human, name := Some ''SerpResearcher''\<rparr>) \<noteq>
   kind (AIMessage \<lparr>reply_content = Text ''findings'', reply_tool_calls = []\<rparr>)"
  by (simp add: runAgentNode_def agent_invoke_def plain_model_def AIMessage_def Let_def)

text \<open>
  C4, amended. When the reply carries no pending tool calls, the node appends one message
  with the reply's content and the agent's name as author, built as a human message, and
  sets the sender to the agent's name.
\<close>

theorem agent_reply_without_tools:
  assumes "agent_invoke model a st = Inr r" and "reply_tool_calls r = []"
  shows "runAgentNode model st a nm =
     Inr \<lparr>upd_messages =
            [\<lparr>kind = Human, content = reply_content r, name = Some nm, tool_calls = [],
              tool_call_id = None\<rparr>],
          upd_sender = Some nm\<rparr>"
  using assms by (simp add: runAgentNode_def AIMessage_def Let_def)

theorem agent_reply_without_tools_witness:
  "runAgentNode plain_model question serpAgent ''SerpResearcher'' =
     Inr \<lparr>upd_messages =
            [\<lparr>kind = Human, content = Text ''findings'', name = Some ''SerpResearcher'',
              tool_calls = [], tool_call_id = None\<rparr>],
          upd_sender = Some ''SerpResearcher''\<rparr>"
proof -
  let ?r = "\<lparr>reply_content = Text ''findings'', reply_tool_calls = []\<rparr>"
  have h1: "agent_invoke plain_model serpAgent question = Inr ?r"
    by (simp add: agent_invoke_def plain_model_def)
  have h2: "reply_tool_calls ?r = []" by simp
  from agent_reply_without_tools [OF h1 h2, of "''SerpResearcher''"] show ?thesis by simp
qed

section \<open>Runs, steps and the recursion limit\<close>










lemma run_node_agent:
  assumes "node_agent n = Some a"
  shows "run_node model exec n st = runAgentNode model st a (node_name n)"
  using assms
  by (cases n) (simp_all add: node_agent_def run_node_def serpNode_def tavNode_def
      summarizerNode_def node_name_def)

lemma router_research:
  assumes "lastMessage (messages st) = Some m" and "tool_calls m = []"
    and "sender st \<noteq> ''Summarizer''"
  shows "router st =
     (if 2 \<le> length (researchMessages (messages st)) then ''summarize'' else ''continue'')"
  using assms by (simp add: router_def)








lemma looping_run:
  assumes "n = SerpResearcher \<or>
           (n = call_tool \<and> sender st = ''SerpResearcher'' \<and>
            (\<exists>m. lastMessage (messages st) = Some m \<and> kind m = AI))"
  shows "run limit looping_model exec n st = Inl GraphRecursionError"
  using assms
proof (induction limit arbitrary: n st)
  case 0
  then show ?case by simp
next
  case (Suc limit)
  from Suc.prems show ?case
  proof
    assume n: "n = SerpResearcher"
    let ?m = "AIMessage \<lparr>reply_content = Text [], reply_tool_calls = [search_call]\<rparr>"
    let ?st = "apply_update st \<lparr>upd_messages = [?m], upd_sender = Some ''SerpResearcher''\<rparr>"
    have g: "graph_step looping_model exec SerpResearcher st = Inr (call_tool, ?st)"
      by (simp add: graph_step_def run_node_def serpNode_def runAgentNode_def agent_invoke_def
          looping_model_def Let_def branch_def path_def ends_def router_def AIMessage_def
          messages_apply_update lastMessage_snoc)
    have "run limit looping_model exec call_tool ?st = Inl GraphRecursionError"
      by (rule Suc.IH) (simp add: sender_apply_update messages_apply_update lastMessage_snoc AIMessage_def)
    with n g show ?thesis by simp
  next
    assume a: "n = call_tool \<and> sender st = ''SerpResearcher'' \<and>
            (\<exists>m. lastMessage (messages st) = Some m \<and> kind m = AI)"
    then obtain m where l: "lastMessage (messages st) = Some m" and k: "kind m = AI" by blast
    have nn: "sender st = node_name SerpResearcher" using a by (simp add: node_name_def)
    from tool_step_returns [OF l k nn] obtain st2
      where g: "graph_step looping_model exec call_tool st = Inr (SerpResearcher, st2)"
      by blast
    have "run limit looping_model exec SerpResearcher st2 = Inl GraphRecursionError"
      by (rule Suc.IH) simp
    with a g show ?thesis by simp
  qed
qed

text \<open>The boundary of the limit: a run of three node steps needs a limit of four.\<close>

lemma run_limit_boundary:
  "graph_invoke 3 plain_model sample_exec default_state (news_input ''quantum computing'') =
     Inl GraphRecursionError \<and>
   sender (projr (graph_invoke 4 plain_model sample_exec default_state
     (news_input ''quantum computing''))) = ''Summarizer''"
  by (simp add: graph_invoke_def eval_nat_numeral model_defs node_defs state_defs edge_defs
      researchMessages_def Let_def)

lemma eager_run_is_tight:
  "graph_invoke 5 (eager_model 1) sample_exec default_state (news_input ''quantum computing'') =
     Inl GraphRecursionError \<and>
   sender (projr (graph_invoke 6 (eager_model 1) sample_exec default_state
     (news_input ''quantum computing''))) = ''Summarizer''"
  by (simp add: graph_invoke_def eval_nat_numeral eager_model_def tool_rounds_def
      serpAgent_def tavAgent_def summarizerAgent_def createAgent_def
      node_defs state_defs edge_defs researchMessages_def search_call_def sample_exec_def Let_def)




section \<open>When the router turns to the summarizer\<close>

text \<open>
  Without pending tool calls and with a sender other than the summarizer, the router
  compares the number of messages that carry a researcher's name with two.
\<close>

lemma router_summarize_iff:
  assumes "lastMessage (messages st) = Some m" and "tool_calls m = []"
    and "sender st \<noteq> ''Summarizer''"
  shows "router st = ''summarize'' \<longleftrightarrow>
     2 \<le> contributions ''SerpResearcher'' (messages st) + contributions ''TavResearcher'' (messages st)"
proof -
  have "length (researchMessages msgs) =
          contributions ''SerpResearcher'' msgs + contributions ''TavResearcher'' msgs" for msgs
    by (induction msgs) (auto simp: researchMessages_def contributions_def)
  with assms show ?thesis by (simp add: router_research)
qed

lemma router_summarize_when_all_contributed:
  assumes "lastMessage (messages st) = Some m" and "tool_calls m = []"
    and "sender st \<noteq> ''Summarizer''"
    and "0 < contributions ''SerpResearcher'' (messages st)"
    and "0 < contributions ''TavResearcher'' (messages st)"
  shows "router st = ''summarize''"
  using assms by (simp add: router_summarize_iff)

text \<open>
  C1. The router's threshold does not tell the two researchers apart. A first run whose
  second researcher fails leaves a thread with one answer of the first researcher; on the
  next question the first researcher answers again and the router goes to the summarizer,
  although the second researcher has contributed nothing.
\<close>

theorem router_summarize_one_sided:
  "graph_step plain_model sample_exec SerpResearcher question = Inr (TavResearcher, interrupted_thread) \<and>
   graph_step failing_model sample_exec TavResearcher interrupted_thread = Inl GenerationFailure \<and>
   graph_step plain_model sample_exec SerpResearcher
     (apply_update interrupted_thread (news_input ''fusion'')) = Inr (Summarizer, one_sided_state) \<and>
   router one_sided_state = ''summarize'' \<and>
   contributions ''SerpResearcher'' (messages one_sided_state) = 2 \<and>
   contributions ''TavResearcher'' (messages one_sided_state) = 0"
  by (simp add: model_defs node_defs state_defs edge_defs Let_def interrupted_thread_def
      one_sided_state_def contributions_def researchMessages_def)

section \<open>The system prompt in the outgoing messages\<close>

text \<open>No node writes a system message into the history, and no question is one.\<close>

lemma has_system_simps:
  "has_system [] = False" "has_system (m # ms) = (kind m = System \<or> has_system ms)"
  by (simp_all add: has_system_def)

lemma has_system_append: "has_system (xs @ ys) \<longleftrightarrow> has_system xs \<or> has_system ys"
  by (simp add: has_system_def)

lemma no_system_tool_messages: "\<not> has_system (map (ToolMessage exec) cs)"
  by (simp add: has_system_def list_ex_iff ToolMessage_def)

lemma run_node_no_system:
  assumes "run_node model exec n st = Inr u"
  shows "\<not> has_system (upd_messages u)"
  using assms
  by (cases n)
     (auto simp: run_node_def serpNode_def tavNode_def summarizerNode_def runAgentNode_def
        toolNode_def AIMessage_def Let_def has_system_def list_ex_iff ToolMessage_def
        split: sum.splits option.splits if_splits)

lemma graph_step_no_system:
  assumes "graph_step model exec n st = Inr (n', st')" and "\<not> has_system (messages st)"
  shows "\<not> has_system (messages st')"
  using assms
  by (auto simp: graph_step_def Let_def messages_apply_update has_system_append
      dest: run_node_no_system split: if_splits sum.splits)

lemma thread_no_system: "\<not> has_system (messages (snd (thread model exec evs)))"
proof (induction evs rule: rev_induct)
  case Nil
  show ?case by (simp add: thread_def default_state_def has_system_simps)
next
  case (snoc ev evs)
  obtain n st where c: "thread model exec evs = (n, st)" by (cases "thread model exec evs")
  with snoc have i: "\<not> has_system (messages st)" by simp
  have t: "thread model exec (evs @ [ev]) = thread_event model exec (n, st) ev"
    by (simp add: thread_def c [unfolded thread_def])
  show ?case
  proof (cases ev)
    case (Ask topic)
    show ?thesis
      unfolding t using i
      by (simp add: Ask thread_event_def messages_apply_update has_system_append news_input_def
          has_system_simps HumanMessage_def)
  next
    case Step
    show ?thesis
    proof (cases "graph_step model exec n st")
      case (Inl e)
      show ?thesis unfolding t using i by (simp add: Step Inl thread_event_def)
    next
      case (Inr cfg)
      obtain n' st' where c': "cfg = (n', st')" by (cases cfg)
      with Inr have "\<not> has_system (messages st')" by (auto dest: graph_step_no_system [OF _ i])
      then show ?thesis unfolding t by (simp add: Step Inr c' thread_event_def)
    qed
  qed
qed

lemma model_step_no_system:
  assumes "model_step call model exec n msgs = Inr (n', msgs')" and "\<not> has_system msgs"
    and "call = callModel \<or> call = callModel_json"
  shows "\<not> has_system msgs'"
  using assms
  by (cases n)
     (auto simp: model_step_def callModel_def callModel_json_def Let_def toolNode_def
        has_system_append no_system_tool_messages has_system_simps AIMessage_def
        split: sum.splits option.splits if_splits)

lemma model_thread_no_system:
  assumes "call = callModel \<or> call = callModel_json"
  shows "\<not> has_system (snd (model_thread call model exec evs))"
proof (induction evs rule: rev_induct)
  case Nil
  show ?case by (simp add: model_thread_def has_system_simps)
next
  case (snoc ev evs)
  obtain n msgs where c: "model_thread call model exec evs = (n, msgs)"
    by (cases "model_thread call model exec evs")
  with snoc have i: "\<not> has_system msgs" by simp
  have t: "model_thread call model exec (evs @ [ev]) = model_thread_event call model exec (n, msgs) ev"
    by (simp add: model_thread_def c [unfolded model_thread_def])
  show ?case
  proof (cases ev)
    case (Ask topic)
    show ?thesis
      unfolding t using i
      by (simp add: Ask model_thread_event_def has_system_append has_system_simps
          HumanMessage_def)
  next
    case Step
    show ?thesis
    proof (cases "model_step call model exec n msgs")
      case (Inl e)
      show ?thesis unfolding t using i by (simp add: Step Inl model_thread_event_def)
    next
      case (Inr cfg)
      obtain n' msgs' where c': "cfg = (n', msgs')" by (cases cfg)
      with Inr have "\<not> has_system msgs'" by (auto dest: model_step_no_system [OF _ i assms])
      then show ?thesis unfolding t by (simp add: Step Inr c' model_thread_event_def)
    qed
  qed
qed

lemma outgoing_messages_head:
  "outgoing_messages prompt msgs =
     (if msgs \<noteq> [] \<and> kind (hd msgs) = System then msgs else prompt # msgs)"
  by (cases msgs) (simp_all add: outgoing_messages_def)

lemma outgoing_messages_no_system:
  assumes "\<not> has_system msgs"
  shows "outgoing_messages prompt msgs = prompt # msgs"
  using assms by (cases msgs) (simp_all add: outgoing_messages_def has_system_simps)

text \<open>
  C8. Whenever a node that calls the model is invoked, in any thread of the multi-agent
  graph or of a single-agent graph, the history holds no system message, and the node
  sends the model its system prompt followed by the whole history: its result is the
  model's answer to exactly that prompt. (A history with a system message, for which the
  single-agent node would test the first message only, is never met.)
\<close>

theorem system_prompt_prepended:
  "(thread model exec evs = (n, st) \<and> node_agent n = Some a \<longrightarrow>
      \<not> has_system (messages st) \<and>
      run_node model exec n st =
        (case model (bindConfig a) (SystemMessage (systemPrompt a) # messages st) of
           None \<Rightarrow> Inl GenerationFailure
         | Some r \<Rightarrow>
             Inr \<lparr>upd_messages =
                    [if reply_tool_calls r = []
                     then \<lparr>kind = Human, content = reply_content r, name = Some (node_name n),
                           tool_calls = [], tool_call_id = None\<rparr>
                     else AIMessage r],
                  upd_sender = Some (node_name n)\<rparr>)) \<and>
   (model_thread callModel model exec evs' = (AgentNode, msgs) \<longrightarrow>
      \<not> has_system msgs \<and>
      callModel model msgs =
        (case model \<lparr>bound_tools = [getNews], response_format = None\<rparr> (analyst_prompt # msgs) of
           None \<Rightarrow> Inl GenerationFailure
         | Some response \<Rightarrow> Inr [AIMessage response])) \<and>
   (model_thread callModel_json model exec evs'' = (AgentNode, msgs') \<longrightarrow>
      \<not> has_system msgs' \<and>
      callModel_json model msgs' =
        (case model
                (if (case lastMessage msgs' of None \<Rightarrow> False | Some m \<Rightarrow> kind m = Tool)
                 then \<lparr>bound_tools = [], response_format = Some ''news_analysis''\<rparr>
                 else \<lparr>bound_tools = [getNews], response_format = None\<rparr>)
                (json_analyst_prompt # msgs') of
           None \<Rightarrow> Inl GenerationFailure
         | Some response \<Rightarrow> Inr [AIMessage response]))"
proof (intro conjI impI)
  assume a: "thread model exec evs = (n, st) \<and> node_agent n = Some a"
  with thread_no_system [of model exec evs] show "\<not> has_system (messages st)" by simp
  from a show "run_node model exec n st =
        (case model (bindConfig a) (SystemMessage (systemPrompt a) # messages st) of
           None \<Rightarrow> Inl GenerationFailure
         | Some r \<Rightarrow>
             Inr \<lparr>upd_messages =
                    [if reply_tool_calls r = []
                     then \<lparr>kind = Human, content = reply_content r, name = Some (node_name n),
                           tool_calls = [], tool_call_id = None\<rparr>
                     else AIMessage r],
                  upd_sender = Some (node_name n)\<rparr>)"
    by (simp add: run_node_agent runAgentNode_def agent_invoke_def agent_prompt_def Let_def
        AIMessage_def split: option.splits)
next
  assume a: "model_thread callModel model exec evs' = (AgentNode, msgs)"
  with model_thread_no_system [of callModel model exec evs']
  show s: "\<not> has_system msgs" by simp
  then show "callModel model msgs =
        (case model \<lparr>bound_tools = [getNews], response_format = None\<rparr> (analyst_prompt # msgs) of
           None \<Rightarrow> Inl GenerationFailure
         | Some response \<Rightarrow> Inr [AIMessage response])"
    by (simp add: callModel_def outgoing_messages_no_system)
next
  assume a: "model_thread callModel_json model exec evs'' = (AgentNode, msgs')"
  with model_thread_no_system [of callModel_json model exec evs'']
  show s: "\<not> has_system msgs'" by simp
  then show "callModel_json model msgs' =
        (case model
                (if (case lastMessage msgs' of None \<Rightarrow> False | Some m \<Rightarrow> kind m = Tool)
                 then \<lparr>bound_tools = [], response_format = Some ''news_analysis''\<rparr>
                 else \<lparr>bound_tools = [getNews], response_format = None\<rparr>)
                (json_analyst_prompt # msgs') of
           None \<Rightarrow> Inl GenerationFailure
         | Some response \<Rightarrow> Inr [AIMessage response])"
    by (simp add: callModel_json_def outgoing_messages_no_system Let_def)
qed

theorem system_prompt_prepended_witness:
  "thread plain_model sample_exec [Ask ''quantum computing'', Step] =
     (TavResearcher, interrupted_thread) \<and>
   \<not> has_system (messages interrupted_thread) \<and>
   run_node plain_model sample_exec TavResearcher interrupted_thread =
     Inr \<lparr>upd_messages = [named_message ''TavResearcher'' ''findings''],
          upd_sender = Some ''TavResearcher''\<rparr> \<and>
   model_thread callModel plain_model sample_exec [Ask ''quantum computing''] =
     (AgentNode, [HumanMessage ''report current events about: quantum computing'']) \<and>
   callModel plain_model [HumanMessage ''report current events about: quantum computing''] =
     Inr [AIMessage \<lparr>reply_content = Text ''findings'', reply_tool_calls = []\<rparr>]"
proof -
  let ?q = "[HumanMessage ''report current events about: quantum computing'']"
  have h1: "thread plain_model sample_exec [Ask ''quantum computing'', Step] =
              (TavResearcher, interrupted_thread)"
    by (simp add: thread_def thread_event_def model_defs node_defs state_defs edge_defs
        researchMessages_def interrupted_thread_def Let_def)
  have h2: "node_agent TavResearcher = Some tavAgent" by (simp add: node_agent_def)
  have h3: "model_thread callModel plain_model sample_exec [Ask ''quantum computing''] =
              (AgentNode, ?q)"
    by (simp add: model_thread_def model_thread_event_def)
  from system_prompt_prepended [where model = plain_model and exec = sample_exec
      and evs = "[Ask ''quantum computing'', Step]" and n = TavResearcher
      and st = interrupted_thread and a = tavAgent
      and evs' = "[Ask ''quantum computing'']" and msgs = ?q] h1 h2 h3
  have "\<not> has_system (messages interrupted_thread) \<and>
        run_node plain_model sample_exec TavResearcher interrupted_thread =
          (case plain_model (bindConfig tavAgent)
                  (SystemMessage (systemPrompt tavAgent) # messages interrupted_thread) of
             None \<Rightarrow> Inl GenerationFailure
           | Some r \<Rightarrow>
               Inr \<lparr>upd_messages =
                      [if reply_tool_calls r = []
                       then \<lparr>kind = Human, content = reply_content r,
                             name = Some (node_name TavResearcher),
                             tool_calls = [], tool_call_id = None\<rparr>
                       else AIMessage r],
                    upd_sender = Some (node_name TavResearcher)\<rparr>) \<and>
        callModel plain_model ?q =
          (case plain_model \<lparr>bound_tools = [getNews], response_format = None\<rparr>
                  (analyst_prompt # ?q) of
             None \<Rightarrow> Inl GenerationFailure
           | Some response \<Rightarrow> Inr [AIMessage response])"
    by blast
  with h1 h3 show ?thesis
    by (simp add: plain_model_def node_name_def named_message_def HumanMessage_def)
qed

section \<open>The reply to the caller\<close>

lemmas reply_defs = generateNews_def format_final_def news_def raw_content_def no_response_def
  oops_response_def final_state_def

lemma raw_content_not_empty: "raw_content result \<noteq> Text []"
  by (simp add: raw_content_def no_response_def split: option.splits content.splits)

text \<open>
  C10. The reply is never the empty string, with the formatted summary in the chain and
  without it (the compiled variant); when the run returns, the last message's content is
  the empty string and no formatted summary was produced, the reply is the text
  \<open>''No response available''\<close>.
\<close>

theorem empty_content_gives_fallback:
  "news result \<noteq> Text [] \<and> raw_content result \<noteq> Text [] \<and>
   (lastMessage (messages out) = Some m \<and> content m = Text [] \<and>
    formattedSummary (generateNews (Inr out) parsed) = None \<longrightarrow>
      news (generateNews (Inr out) parsed) = Text ''No response available'')"
proof (intro conjI)
  show "news result \<noteq> Text []"
    by (simp add: news_def raw_content_not_empty split: option.splits)
  show "raw_content result \<noteq> Text []"
    by (rule raw_content_not_empty)
  show "lastMessage (messages out) = Some m \<and> content m = Text [] \<and>
    formattedSummary (generateNews (Inr out) parsed) = None \<longrightarrow>
      news (generateNews (Inr out) parsed) = Text ''No response available''"
    by (clarsimp simp: news_def raw_content_def generateNews_def no_response_def)
qed

theorem empty_content_gives_fallback_witness:
  "lastMessage (messages (final_state (Text []))) =
     Some \<lparr>kind = Human, content = Text [], name = Some ''Summarizer'', tool_calls = [],
           tool_call_id = None\<rparr> \<and>
   formattedSummary (generateNews (Inr (final_state (Text []))) None) = None \<and>
   news (generateNews (Inr (final_state (Text []))) None) = Text ''No response available''"
proof -
  let ?m = "\<lparr>kind = Human, content = Text [], name = Some ''Summarizer'', tool_calls = [],
           tool_call_id = None\<rparr>"
  have h1: "lastMessage (messages (final_state (Text []))) = Some ?m"
    by (simp add: final_state_def lastMessage_def)
  have h2: "content ?m = Text []" by simp
  have h3: "formattedSummary (generateNews (Inr (final_state (Text []))) None) = None"
    by (simp add: generateNews_def format_final_def h1)
  from empty_content_gives_fallback [of _ "final_state (Text [])" ?m None] h1 h2 h3
  show ?thesis by simp
qed

text \<open>
  C6, as stated, fails twice: the empty string is not valid JSON and is answered with the
  fixed text, not with the content; and a JSON text that has a \<^verbatim>\<open>summary\<close> object with an
  empty \<^verbatim>\<open>key_points\<close> and nothing else, far from the schema, is rendered.
\<close>

theorem formatter_fallback_counterexample:
  \<open>news (generateNews (Inr (final_state (Text []))) None) = Text ''No response available'' \<and>
   news (generateNews (Inr (final_state (Text ''{"summary":{"key_points":[]}}'')))
          (Some (JObj [(''summary'', JObj [(''key_points'', JArr [])])]))) =
     Text ''# undefined\<newline>\<newline>undefined\<newline>\<newline>## Key Points\<newline>\<newline>## Insights\<newline>\<newline>undefined\<newline>\<newline>## Conclusion\<newline>\<newline>undefined''\<close>
  by (simp add: reply_defs lastMessage_def formatSummaryFromJSON_def read_text_def template_def)

text \<open>
  C6, amended. When the final content is a non-empty string that is not valid JSON, or
  that parses to a value on which reading \<^verbatim>\<open>summary\<close> throws, or whose \<^verbatim>\<open>summary\<close> is
  falsy, or whose \<^verbatim>\<open>summary\<close> makes the formatter throw, the reply is that content,
  unchanged; nothing is raised on the way.
\<close>

theorem formatter_fallback:
  assumes "lastMessage (messages out) = Some m" and "content m = Text s" and "s \<noteq> []"
    and "parsed = None \<or>
         (\<exists>j. parsed = Some j \<and>
            (case get_prop (Some j) ''summary'' of
               Inl e \<Rightarrow> True
             | Inr v \<Rightarrow> \<not> truthy v \<or> (\<exists>e. formatSummaryFromJSON v = Inl e)))"
  shows "news (generateNews (Inr out) parsed) = Text s"
proof -
  from assms(4) have "format_final (Some m) parsed = None"
  proof
    assume "parsed = None"
    then show ?thesis by (simp add: format_final_def assms(2))
  next
    assume "\<exists>j. parsed = Some j \<and>
            (case get_prop (Some j) ''summary'' of
               Inl e \<Rightarrow> True
             | Inr v \<Rightarrow> \<not> truthy v \<or> (\<exists>e. formatSummaryFromJSON v = Inl e))"
    then obtain j where j: "parsed = Some j"
      and c: "case get_prop (Some j) ''summary'' of
               Inl e \<Rightarrow> True
             | Inr v \<Rightarrow> \<not> truthy v \<or> (\<exists>e. formatSummaryFromJSON v = Inl e)"
      by blast
    show ?thesis
    proof (cases "get_prop (Some j) ''summary''")
      case (Inl e)
      with j show ?thesis by (simp add: format_final_def assms(2))
    next
      case (Inr v)
      with c j show ?thesis by (auto simp: format_final_def assms(2))
    qed
  qed
  with assms(1-3) show ?thesis
    by (simp add: news_def generateNews_def raw_content_def)
qed

theorem formatter_fallback_witness:
  "news (generateNews (Inr (final_state (Text ''Here is the news.''))) None) =
     Text ''Here is the news.'' \<and>
   news (generateNews (Inr (final_state (Text ''null''))) (Some JNull)) = Text ''null''"
proof -
  let ?m = "\<lambda>s. \<lparr>kind = Human, content = Text s, name = Some ''Summarizer'', tool_calls = [],
           tool_call_id = None\<rparr>"
  have h1: "lastMessage (messages (final_state (Text s))) = Some (?m s)" for s
    by (simp add: final_state_def lastMessage_def)
  have h2: "content (?m s) = Text s" for s by simp
  have a: "news (generateNews (Inr (final_state (Text ''Here is the news.''))) None) =
     Text ''Here is the news.''"
    by (rule formatter_fallback [OF h1 h2]) simp_all
  have b: "news (generateNews (Inr (final_state (Text ''null''))) (Some JNull)) = Text ''null''"
    by (rule formatter_fallback [OF h1 h2]) simp_all
  from a b show ?thesis by simp
qed

text \<open>
  C7, as stated, fails: the fatal paths do not share one reply. A failing model call is
  answered with \<open>''No response available''\<close>, a request that is not JSON with
  \<open>''Oops, something went wrong!''\<close>.
\<close>

theorem fatal_paths_counterexample:
  "serve 25 failing_model sample_exec fresh_memory (Some sample_request) None =
     Some (Text ''No response available'') \<and>
   serve 25 failing_model sample_exec fresh_memory None None =
     Some (Text ''Oops, something went wrong!'')"
  by (simp add: serve_def connection_handler_def sample_request_def lookup_run_def template_def
      graph_invoke_def eval_nat_numeral graph_step_def run_node_def serpNode_def
      runAgentNode_def agent_invoke_def failing_model_def reply_defs)

text \<open>
  C7, amended. A request that does not parse, or parses to \<^verbatim>\<open>null\<close>, is answered with
  the fixed text \<open>''Oops, something went wrong!''\<close>. A lookup request whose run fails,
  whatever the error (a failing model call, the recursion limit, an unmapped route), whose
  topic cannot be printed or whose thread identifier is missing, is answered with the
  fixed text \<open>''No response available''\<close>. Neither reply depends on the state of the
  thread.
\<close>

theorem fatal_paths:
  "(request = None \<or> request = Some JNull \<longrightarrow>
      serve limit model exec memory request parsed = Some (Text ''Oops, something went wrong!'')) \<and>
   (get_prop request ''command'' = Inr (Some (JStr ''lookup news'')) \<and>
    get_prop request ''topic'' = Inr topic \<and>
    get_prop request ''session_id'' = Inr session_id \<and>
    ((\<exists>e. template topic = Inl e) \<or> session_id = None \<or>
     (\<exists>printed e. template topic = Inr printed \<and>
        graph_invoke limit model exec (memory session_id) (news_input printed) = Inl e)) \<longrightarrow>
      serve limit model exec memory request parsed = Some (Text ''No response available''))"
proof (intro conjI impI)
  assume "request = None \<or> request = Some JNull"
  then show "serve limit model exec memory request parsed =
               Some (Text ''Oops, something went wrong!'')"
    by (auto simp: serve_def connection_handler_def oops_response_def)
next
  assume a: "get_prop request ''command'' = Inr (Some (JStr ''lookup news'')) \<and>
    get_prop request ''topic'' = Inr topic \<and>
    get_prop request ''session_id'' = Inr session_id \<and>
    ((\<exists>e. template topic = Inl e) \<or> session_id = None \<or>
     (\<exists>printed e. template topic = Inr printed \<and>
        graph_invoke limit model exec (memory session_id) (news_input printed) = Inl e))"
  then obtain j where j: "request = Some j" by (cases request) auto
  from a have "\<exists>e. lookup_run limit model exec memory topic session_id = Inl e"
    by (auto simp: lookup_run_def split: sum.splits option.splits)
  then obtain e where "lookup_run limit model exec memory topic session_id = Inl e" ..
  with a j show "serve limit model exec memory request parsed =
                   Some (Text ''No response available'')"
    by (simp add: serve_def connection_handler_def generateNews_def news_def raw_content_def
        no_response_def)
qed

theorem fatal_paths_witness:
  "serve 25 looping_model sample_exec fresh_memory (Some JNull) None =
     Some (Text ''Oops, something went wrong!'') \<and>
   serve 25 looping_model sample_exec fresh_memory (Some sample_request) None =
     Some (Text ''No response available'')"
proof -
  have c: "get_prop (Some sample_request) ''command'' = Inr (Some (JStr ''lookup news''))"
    by (simp add: sample_request_def)
  have t: "get_prop (Some sample_request) ''topic'' = Inr (Some (JStr ''quantum computing''))"
    by (simp add: sample_request_def)
  have i: "get_prop (Some sample_request) ''session_id'' = Inr (Some (JStr ''s1''))"
    by (simp add: sample_request_def)
  have p: "template (Some (JStr ''quantum computing'')) = Inr ''quantum computing''"
    by (simp add: template_def)
  have g: "graph_invoke 25 looping_model sample_exec (fresh_memory (Some (JStr ''s1'')))
             (news_input ''quantum computing'') = Inl GraphRecursionError"
    unfolding graph_invoke_def by (rule looping_run) simp
  from fatal_paths [where request = "Some JNull" and limit = 25 and model = looping_model
      and exec = sample_exec and memory = fresh_memory and parsed = None]
  have a: "serve 25 looping_model sample_exec fresh_memory (Some JNull) None =
             Some (Text ''Oops, something went wrong!'')"
    by simp
  from fatal_paths [where request = "Some sample_request" and limit = 25
      and model = looping_model and exec = sample_exec and memory = fresh_memory
      and parsed = None and topic = "Some (JStr ''quantum computing'')"
      and session_id = "Some (JStr ''s1'')"] c t i p g
  have b: "serve 25 looping_model sample_exec fresh_memory (Some sample_request) None =
             Some (Text ''No response available'')"
    by blast
  from a b show ?thesis by simp
qed

end
